theory Spec2Isabelle
  imports Complex_Main
begin

section \<open>Two-station dispersion measurement (pysismo/pstwostation.py)\<close>

text \<open>
  A shallow embedding of the methods of class \<open>Tscombine\<close> and of the module functions
  they call. Python floats and \<open>UTCDateTime\<close> instants are modelled by \<open>real\<close> (no
  rounding), numpy index arrays by \<open>nat list\<close>, a numpy matrix by the list of its rows.
  Every exception the source can raise is a value of type \<open>error\<close>; a method that
  mutates \<open>self\<close> takes the object and returns the updated one.
\<close>

subsection \<open>Exceptions\<close>

datatype error =
    TypeError
  | ValueError
  | IndexError
  | UnboundLocalError
  | ZeroDivisionError
  | TracesNotCorrected
  | CannotImportData
  | CannotMeasureDispersion
  | IOError

subsection \<open>Data\<close>

text \<open>
  The attributes of an \<open>obspy.Trace\<close> that the module reads. \<open>sampling_rate\<close> is what
  \<open>tr.sampling_rate\<close> evaluates to (line 209), \<open>stats_sampling_rate\<close> what
  \<open>tr.stats.sampling_rate\<close> does; \<open>tr.stats.npts\<close> is the length of \<open>data\<close>.
\<close>

record trace =
  trace_id :: string
  data :: "real list"
  dtype :: string
  sampling_rate :: real
  stats_sampling_rate :: real
  starttime :: real

text \<open>
  The attributes of a \<open>Tscombine\<close> object that \<open>measure_dispersion\<close> and the tracker
  read and write. \<open>dispersion\<close> is \<open>None\<close> after lines 156 and 245.
\<close>

record combination =
  tr1 :: trace
  tr2 :: trace
  veloscale :: "real list"
  vmatrix :: "real list list"
  dispersion :: "real list option"

text \<open>A point is a 2-tuple of numbers: a mouse click (period, velocity), or a pair of
  indices proposed by the tracker.\<close>

type_synonym point = "real \<times> real"

subsection \<open>numpy and scipy primitives\<close>

text \<open>\<open>(xs == v).argmax()\<close>: the first index holding \<open>v\<close>, 0 when there is none,
  \<open>ValueError\<close> on an empty array.\<close>

fun first_index :: "real list \<Rightarrow> real \<Rightarrow> nat option" where
  "first_index [] v = None"
| "first_index (x # xs) v = (if x = v then Some 0 else map_option Suc (first_index xs v))"

definition argmax_eq :: "real list \<Rightarrow> real \<Rightarrow> error + nat" where
  "argmax_eq xs v =
     (if xs = [] then Inl ValueError
      else Inr (case first_index xs v of None \<Rightarrow> 0 | Some i \<Rightarrow> i))"

text \<open>\<open>data.take(i, mode='clip')\<close>: the index is clipped into the array.\<close>

definition take_clip :: "real list \<Rightarrow> int \<Rightarrow> real" where
  "take_clip xs i = xs ! nat (max 0 (min i (int (length xs) - 1)))"

text \<open>\<open>scipy.signal.argrelextrema(data, comparator)[0]\<close> with its defaults
  \<open>order=1, mode='clip'\<close>: the indices whose entry compares against both neighbours.\<close>

definition relextremum_at :: "(real \<Rightarrow> real \<Rightarrow> bool) \<Rightarrow> real list \<Rightarrow> nat \<Rightarrow> bool" where
  "relextremum_at comparator xs i =
     (comparator (xs ! i) (take_clip xs (int i + 1)) \<and>
      comparator (xs ! i) (take_clip xs (int i - 1)))"

definition argrelextrema :: "real list \<Rightarrow> (real \<Rightarrow> real \<Rightarrow> bool) \<Rightarrow> nat list" where
  "argrelextrema xs comparator = filter (relextremum_at comparator xs) [0..<length xs]"

definition np_greater :: "real \<Rightarrow> real \<Rightarrow> bool" where
  "np_greater a b = (b < a)"

definition np_less :: "real \<Rightarrow> real \<Rightarrow> bool" where
  "np_less a b = (a < b)"

text \<open>The truth value of \<open>self.dispersion\<close> (\<open>None\<close> or a numpy array): an array of more
  than one element has none (\<open>ValueError\<close>), an empty one is false.\<close>

definition truth_value :: "real list option \<Rightarrow> error + bool" where
  "truth_value d =
     (case d of
        None \<Rightarrow> Inr False
      | Some xs \<Rightarrow>
          (if xs = [] then Inr False
           else if length xs = 1 then Inr (hd xs \<noteq> 0)
           else Inl ValueError))"

subsection \<open>get_point_index\<close>

definition get_point_index :: "point \<Rightarrow> real list \<Rightarrow> real list \<Rightarrow> error + nat \<times> nat" where
  "get_point_index pt vscale periods =
     (case argmax_eq periods (fst pt) of
        Inl e \<Rightarrow> Inl e
      | Inr iperiod \<Rightarrow>
          (case argmax_eq vscale (snd pt) of
             Inl e \<Rightarrow> Inl e
           | Inr ivelo \<Rightarrow> Inr (iperiod, ivelo)))"

subsection \<open>local_maximum_tracking\<close>

text \<open>Lines 192-196: both sets are collected with \<open>np.greater\<close>.\<close>

definition extremums_of :: "real list \<Rightarrow> nat list" where
  "extremums_of xcorr =
     (let local_maximums = argrelextrema xcorr np_greater;
          local_minimums = argrelextrema xcorr np_greater
      in local_minimums @ local_maximums)"

definition extremums_left_of :: "nat list \<Rightarrow> nat \<Rightarrow> nat list" where
  "extremums_left_of extremums ivelo = filter (\<lambda>e. int e - int ivelo \<le> 0) extremums"

definition extremums_right_of :: "nat list \<Rightarrow> nat \<Rightarrow> nat list" where
  "extremums_right_of extremums ivelo = filter (\<lambda>e. int e - int ivelo \<ge> 0) extremums"

text \<open>
  Line 209-210, \<open>float(shift * 1.0 / sampling_rate) / float(period) > 0.4\<close>, for a
  period that is not 0. \<open>shift * 1.0\<close> is a numpy float, so a sampling rate of 0 gives
  \<open>nan\<close> (shift 0) or \<open>inf\<close> instead of an exception.
\<close>

definition half_wave_apart :: "real \<Rightarrow> nat \<Rightarrow> real \<Rightarrow> bool" where
  "half_wave_apart rate shift period =
     (if rate = 0 then shift \<noteq> 0 \<and> 0 < period
      else real shift / rate / period > 2 / 5)"

text \<open>
  The \<open>for\<close> loop of lines 202-214 over the remaining shifts: \<open>Some\<close> the value bound to
  \<open>phasevelo\<close> at the \<open>break\<close>, \<open>None\<close> when the loop ends with \<open>phasevelo\<close> unbound.
  \<open>extremums_left[-(shift + 1)]\<close> counts from the end.
\<close>

fun shift_loop ::
  "real \<Rightarrow> real \<Rightarrow> real list \<Rightarrow> nat list \<Rightarrow> nat list \<Rightarrow> nat list \<Rightarrow> error + real option" where
  "shift_loop rate period xcorr extremums_left extremums_right [] = Inr None"
| "shift_loop rate period xcorr extremums_left extremums_right (shift # shifts) =
     (let left_extremum = extremums_left ! (length extremums_left - (shift + 1));
          right_extremum = extremums_right ! shift
      in if period = 0 then Inl ZeroDivisionError
         else if half_wave_apart rate shift period
         then Inr (Some (max (xcorr ! left_extremum) (xcorr ! right_extremum)))
         else shift_loop rate period xcorr extremums_left extremums_right shifts)"

definition write_back ::
  "combination \<Rightarrow> real list \<Rightarrow> nat \<Rightarrow> nat \<Rightarrow> real
     \<Rightarrow> error + combination \<times> point option \<times> point option" where
  "write_back self periods iperiod ivelo phasevelo =
     (case dispersion self of
        None \<Rightarrow> Inl TypeError
      | Some d \<Rightarrow>
          (if length d \<le> iperiod then Inl IndexError
           else Inr (self\<lparr>dispersion := Some (d[iperiod := phasevelo])\<rparr>,
                     (if iperiod \<noteq> 0
                      then Some (real iperiod - 1, real ivelo) else None),
                     (if iperiod \<noteq> length periods
                      then Some (real iperiod + 1, real ivelo) else None))))"

definition local_maximum_tracking ::
  "combination \<Rightarrow> point \<Rightarrow> real list
     \<Rightarrow> error + combination \<times> point option \<times> point option" where
  "local_maximum_tracking self refpoint periods =
     (case get_point_index refpoint (veloscale self) periods of
        Inl e \<Rightarrow> Inl e
      | Inr (iperiod, ivelo) \<Rightarrow>
          (if length (vmatrix self) \<le> iperiod then Inl IndexError
           else
             (let xcorr = vmatrix self ! iperiod;
                  extremums = extremums_of xcorr;
                  extremums_left = extremums_left_of extremums ivelo;
                  extremums_right = extremums_right_of extremums ivelo;
                  shift_length = min (length extremums_left) (length extremums_right)
              in (case shift_loop (sampling_rate (tr1 self)) (periods ! iperiod) xcorr
                         extremums_left extremums_right [0..<shift_length] of
                    Inl e \<Rightarrow> Inl e
                  | Inr None \<Rightarrow> Inl UnboundLocalError
                  | Inr (Some phasevelo) \<Rightarrow>
                      write_back self periods iperiod ivelo phasevelo))))"

subsection \<open>plot_vmatrix\<close>

text \<open>
  \<open>ginput\<close> is what \<open>plt.ginput(1)\<close> returns, the list of clicked points; \<open>[0]\<close> of an
  empty list raises. The method returns the reference point (or \<open>None\<close>) and the object.
\<close>

definition plot_vmatrix ::
  "combination \<Rightarrow> real list \<Rightarrow> point list \<Rightarrow> error + point option \<times> combination" where
  "plot_vmatrix self periods ginput =
     (case truth_value (dispersion self) of
        Inl e \<Rightarrow> Inl e
      | Inr False \<Rightarrow>
          (case ginput of
             [] \<Rightarrow> Inl IndexError
           | refpoint # _ \<Rightarrow>
               (if fst refpoint < 20 then Inr (None, self)
                else Inr (Some refpoint, self)))
      | Inr True \<Rightarrow>
          (case ginput of
             [] \<Rightarrow> Inl IndexError
           | refpoint # _ \<Rightarrow>
               (if fst refpoint < 20 then Inr (None, self\<lparr>dispersion := None\<rparr>)
                else Inr (None, self))))"

subsection \<open>extraction_of_phasevelo\<close>

text \<open>
  The two \<open>while\<close> loops of lines 172-177, with fuel: the result is \<open>None\<close> when the
  loop is still running after \<open>fuel\<close> iterations. The second loop binds the new left
  point to \<open>_leftpoint\<close>, so it tests the same \<open>leftpoint\<close> again.
\<close>

fun right_walk ::
  "nat \<Rightarrow> combination \<Rightarrow> real list \<Rightarrow> point option \<Rightarrow> (error + combination) option" where
  "right_walk fuel self periods None = Some (Inr self)"
| "right_walk 0 self periods (Some rightpoint) = None"
| "right_walk (Suc fuel) self periods (Some rightpoint) =
     (case local_maximum_tracking self rightpoint periods of
        Inl e \<Rightarrow> Some (Inl e)
      | Inr (self', _, rightpoint') \<Rightarrow> right_walk fuel self' periods rightpoint')"

fun left_walk ::
  "nat \<Rightarrow> combination \<Rightarrow> real list \<Rightarrow> point option \<Rightarrow> (error + combination) option" where
  "left_walk fuel self periods None = Some (Inr self)"
| "left_walk 0 self periods (Some leftpoint) = None"
| "left_walk (Suc fuel) self periods (Some leftpoint) =
     (case local_maximum_tracking self leftpoint periods of
        Inl e \<Rightarrow> Some (Inl e)
      | Inr (self', _, _) \<Rightarrow> left_walk fuel self' periods (Some leftpoint))"

text \<open>Lines 178-182, after both loops.\<close>

definition recheck ::
  "combination \<Rightarrow> real list \<Rightarrow> point list \<Rightarrow> error + combination" where
  "recheck self periods ginput2 =
     (case truth_value (dispersion self) of
        Inl e \<Rightarrow> Inl e
      | Inr False \<Rightarrow> Inl CannotMeasureDispersion
      | Inr True \<Rightarrow>
          (case plot_vmatrix self periods ginput2 of
             Inl e \<Rightarrow> Inl e
           | Inr (_, self') \<Rightarrow> Inr self'))"

definition walks ::
  "nat \<Rightarrow> combination \<Rightarrow> real list \<Rightarrow> point option \<Rightarrow> point option \<Rightarrow> point list
     \<Rightarrow> (error + combination) option" where
  "walks fuel self periods leftpoint rightpoint ginput2 =
     (case right_walk fuel self periods rightpoint of
        None \<Rightarrow> None
      | Some (Inl e) \<Rightarrow> Some (Inl e)
      | Some (Inr self') \<Rightarrow>
          (case left_walk fuel self' periods leftpoint of
             None \<Rightarrow> None
           | Some (Inl e) \<Rightarrow> Some (Inl e)
           | Some (Inr self'') \<Rightarrow> Some (recheck self'' periods ginput2)))"

text \<open>\<open>ginput1\<close> and \<open>ginput2\<close> are the clicks of the two calls of \<open>plot_vmatrix\<close>.\<close>

definition extraction_of_phasevelo ::
  "nat \<Rightarrow> combination \<Rightarrow> real list \<Rightarrow> point list \<Rightarrow> point list
     \<Rightarrow> (error + combination) option" where
  "extraction_of_phasevelo fuel self periods ginput1 ginput2 =
     (case plot_vmatrix self periods ginput1 of
        Inl e \<Rightarrow> Some (Inl e)
      | Inr (None, _) \<Rightarrow> Some (Inl CannotMeasureDispersion)
      | Inr (Some refpoint, self1) \<Rightarrow>
          (case local_maximum_tracking self1 refpoint periods of
             Inl e \<Rightarrow> Some (Inl e)
           | Inr (self2, leftpoint, rightpoint) \<Rightarrow>
               walks fuel self2 periods leftpoint rightpoint ginput2))"

subsection \<open>The calls of a walk\<close>

text \<open>
  Lines 170-177 call \<open>self.local_maximum_tracking\<close> again and again on the same object,
  each call on the object as the previous one left it. \<open>tracking_calls\<close> makes these calls
  on the points given, in order, and returns the object after the last one with the
  period index each call resolved (line 216 writes \<open>self.dispersion[iperiod]\<close>).
\<close>

fun tracking_calls ::
  "combination \<Rightarrow> real list \<Rightarrow> point list \<Rightarrow> error + combination \<times> nat list" where
  "tracking_calls self periods [] = Inr (self, [])"
| "tracking_calls self periods (refpoint # points) =
     (case get_point_index refpoint (veloscale self) periods of
        Inl e \<Rightarrow> Inl e
      | Inr (iperiod, _) \<Rightarrow>
          (case local_maximum_tracking self refpoint periods of
             Inl e \<Rightarrow> Inl e
           | Inr (self', _, _) \<Rightarrow>
               (case tracking_calls self' periods points of
                  Inl e \<Rightarrow> Inl e
                | Inr (self'', resolved) \<Rightarrow> Inr (self'', iperiod # resolved))))"

subsection \<open>get_merged_traces\<close>

record station =
  network :: string
  name :: string
  channel :: string

text \<open>\<open>sep.join(parts)\<close> and \<open>os.path.join(a, *p)\<close> (posixpath).\<close>

fun str_join :: "string \<Rightarrow> string list \<Rightarrow> string" where
  "str_join sep [] = []"
| "str_join sep [x] = x"
| "str_join sep (x # y # ys) = x @ sep @ str_join sep (y # ys)"

definition join2 :: "string \<Rightarrow> string \<Rightarrow> string" where
  "join2 path b =
     (if b \<noteq> [] \<and> hd b = CHR ''/'' then b
      else if path = [] \<or> last path = CHR ''/'' then path @ b
      else path @ ''/'' @ b)"

definition os_path_join :: "string \<Rightarrow> string list \<Rightarrow> string" where
  "os_path_join a p = foldl join2 a p"

text \<open>Lines 81-84: the two file names.\<close>

definition filename_of :: "string \<Rightarrow> station \<Rightarrow> string" where
  "filename_of prefix sta =
     str_join ''.'' [prefix, ''0000'', network sta, name sta, ''*'', channel sta, ''M'', ''SAC'']"

text \<open>Lines 78-89: the paths handed to the two calls of \<open>obspy.read\<close>, in order.
  \<open>strftime\<close> formats the event's origin time.\<close>

definition filepaths ::
  "('o \<Rightarrow> string \<Rightarrow> string) \<Rightarrow> string \<Rightarrow> 'o \<Rightarrow> station \<Rightarrow> station \<Rightarrow> string \<times> string" where
  "filepaths strftime sacdir origin sta1 sta2 =
     (let subdir = strftime origin ''%Y%m%d%H%M%S'';
          prefix = strftime origin ''%Y.%j.%H.%M.%S'';
          filename1 = filename_of prefix sta1;
          filename2 = filename_of prefix sta2
      in (os_path_join sacdir [subdir, filename1], os_path_join sacdir [subdir, filename1]))"

text \<open>\<open>st.merge()[0]\<close>; \<open>merge\<close> is the stream's method.\<close>

definition merged_first ::
  "(trace list \<Rightarrow> error + trace list) \<Rightarrow> trace list \<Rightarrow> error + trace" where
  "merged_first merge st =
     (case merge st of
        Inl e \<Rightarrow> Inl e
      | Inr [] \<Rightarrow> Inl IndexError
      | Inr (tr # _) \<Rightarrow> Inr tr)"

text \<open>Lines 94-104, on the two merged traces.\<close>

definition check_traces :: "trace \<Rightarrow> trace \<Rightarrow> error + trace \<times> trace" where
  "check_traces t1 t2 =
     (if dtype t1 \<noteq> ''float32'' then Inl TracesNotCorrected
      else if dtype t2 \<noteq> ''float32'' then Inl TracesNotCorrected
      else if stats_sampling_rate t1 \<noteq> stats_sampling_rate t2 then Inl CannotImportData
      else Inr (t1, t2))"

text \<open>\<open>read\<close> is \<open>obspy.read(path, format="SAC")\<close> on the file system at hand. The result
  is the pair (\<open>self.tr1\<close>, \<open>self.tr2\<close>).\<close>

definition get_merged_traces ::
  "(string \<Rightarrow> error + trace list) \<Rightarrow> (trace list \<Rightarrow> error + trace list)
     \<Rightarrow> ('o \<Rightarrow> string \<Rightarrow> string) \<Rightarrow> string \<Rightarrow> 'o \<Rightarrow> station \<Rightarrow> station
     \<Rightarrow> error + trace \<times> trace" where
  "get_merged_traces read merge strftime sacdir origin sta1 sta2 =
     (case read (fst (filepaths strftime sacdir origin sta1 sta2)) of
        Inl e \<Rightarrow> Inl e
      | Inr st1 \<Rightarrow>
          (case read (snd (filepaths strftime sacdir origin sta1 sta2)) of
             Inl e \<Rightarrow> Inl e
           | Inr st2 \<Rightarrow>
               (case merged_first merge st1 of
                  Inl e \<Rightarrow> Inl e
                | Inr t1 \<Rightarrow>
                    (case merged_first merge st2 of
                       Inl e \<Rightarrow> Inl e
                     | Inr t2 \<Rightarrow> check_traces t1 t2))))"

subsection \<open>movement_windows_construction\<close>

text \<open>Lines 347-348: the absolute time of every sample.\<close>

definition timescale_of :: "trace \<Rightarrow> real list" where
  "timescale_of tr =
     map (\<lambda>x. starttime tr + real x / stats_sampling_rate tr) [0..<length (data tr)]"

text \<open>
  Lines 352-368 for one period \<open>T0\<close> and one sample time: the entry of \<open>w\<close> after the
  mask assignment (starting from \<open>np.zeros\<close>) and the two \<open>if\<close> statements of the
  inner loop, in the source's order.
\<close>

definition window_weight :: "real \<Rightarrow> real \<Rightarrow> real \<Rightarrow> real \<Rightarrow> real" where
  "window_weight halfwidth T0 arrival time =
     (let Tturna = arrival - halfwidth * T0;
          Tturnb = arrival + halfwidth * T0;
          Tjumpa = arrival - halfwidth * T0 - T0 / 2;
          Tjumpb = arrival + halfwidth * T0 + T0 / 2;
          w0 = (if time \<le> Tturnb \<and> time \<ge> Tturna then 1 else 0);
          w1 = (if time < Tturna \<and> time > Tjumpa
                then cos (pi * (\<bar>time - arrival\<bar> - halfwidth * T0) / T0) else w0);
          w2 = (if time < Tjumpb \<and> time > Tturnb
                then cos (pi * (\<bar>time - arrival\<bar> - halfwidth * T0) / T0) else w1)
      in w2)"

text \<open>Lines 391-400 of \<open>plot_isolation\<close>: \<open>timescale[0]\<close>, and \<open>iso\<close> bound only when
  \<open>period\<close> is one of the periods.\<close>

definition plot_isolation :: "real list \<Rightarrow> real list \<Rightarrow> real \<Rightarrow> error + unit" where
  "plot_isolation timescale periods period =
     (if timescale = [] then Inl IndexError
      else if List.member periods period then Inr ()
      else Inl UnboundLocalError)"

definition movement_windows_construction ::
  "trace \<Rightarrow> real list \<Rightarrow> real list \<Rightarrow> real \<Rightarrow> real \<Rightarrow> bool \<Rightarrow> error + real list list" where
  "movement_windows_construction tr periods group_arr reftime halfwidth debug =
     (if stats_sampling_rate tr = 0 \<and> data tr \<noteq> [] then Inl ZeroDivisionError
      else if length group_arr < length periods then Inl IndexError
      else
        (let timescale = timescale_of tr;
             w = map (\<lambda>(T0, arrival). map (window_weight halfwidth T0 arrival) timescale)
                   (zip periods group_arr);
             isotr = map (\<lambda>wrow. map2 (*) (data tr) wrow) w
         in if debug
            then (case plot_isolation timescale periods 80 of
                    Inl e \<Rightarrow> Inl e
                  | Inr _ \<Rightarrow> Inr isotr)
            else Inr isotr))"

subsection \<open>intersta_t_v_construct and measure_dispersion\<close>

text \<open>The values passed at the call of line 149.\<close>

datatype pyval =
    PyTrace trace
  | PyMatrix "real list list"
  | PyArray "real list"
  | PyNumber real

type_synonym env = "(string \<times> pyval) list"

text \<open>
  Python's binding of positional arguments: the names without a default, the names
  with their defaults, the arguments of the call. A name without a default that gets no
  argument, or an argument beyond the last name, is a \<open>TypeError\<close>.
\<close>

fun bind_arguments ::
  "string list \<Rightarrow> (string \<times> pyval) list \<Rightarrow> pyval list \<Rightarrow> error + env" where
  "bind_arguments [] defaults [] = Inr defaults"
| "bind_arguments [] [] (a # args) = Inl TypeError"
| "bind_arguments [] ((n, d) # defaults) (a # args) =
     (case bind_arguments [] defaults args of
        Inl e \<Rightarrow> Inl e
      | Inr bound \<Rightarrow> Inr ((n, a) # bound))"
| "bind_arguments (n # required) defaults [] = Inl TypeError"
| "bind_arguments (n # required) defaults (a # args) =
     (case bind_arguments required defaults args of
        Inl e \<Rightarrow> Inl e
      | Inr bound \<Rightarrow> Inr ((n, a) # bound))"

text \<open>
  Lines 276-277, the signature \<open>(tr1, tr2, filttr1, filttr2, periods, rmaxv=7, rminv=2,
  deltav=0.01, shift_len=500)\<close>. \<open>body\<close> is the function's body (obspy and scipy calls)
  on the bound names; it returns \<open>None\<close> or the pair (veloscale, vmatrix).
\<close>

definition intersta_t_v_construct ::
  "(env \<Rightarrow> error + (real list \<times> real list list) option) \<Rightarrow> pyval list
     \<Rightarrow> error + (real list \<times> real list list) option" where
  "intersta_t_v_construct body args =
     (case bind_arguments [''tr1'', ''tr2'', ''filttr1'', ''filttr2'', ''periods'']
             [(''rmaxv'', PyNumber 7), (''rminv'', PyNumber 2),
              (''deltav'', PyNumber (1 / 100)), (''shift_len'', PyNumber 500)] args of
        Inl e \<Rightarrow> Inl e
      | Inr bound \<Rightarrow> body bound)"

text \<open>The truth value of the matrix \<open>self.vmatrix\<close> (line 154).\<close>

definition matrix_truth_value :: "real list list \<Rightarrow> error + bool" where
  "matrix_truth_value m = truth_value (Some (concat m))"

text \<open>Lines 150-159, once the call of line 149 has returned \<open>result\<close>.\<close>

definition after_construct ::
  "nat \<Rightarrow> point list \<Rightarrow> point list \<Rightarrow> combination \<Rightarrow> real list
     \<Rightarrow> (real list \<times> real list list) option \<Rightarrow> (error + combination) option" where
  "after_construct fuel ginput1 ginput2 self periods result =
     (case result of
        None \<Rightarrow> Some (Inl TypeError)
      | Some (vscale, vmat) \<Rightarrow>
          (let self' = self\<lparr>veloscale := vscale, vmatrix := vmat\<rparr>
           in (case matrix_truth_value vmat of
                 Inl e \<Rightarrow> Some (Inl e)
               | Inr False \<Rightarrow> Some (Inr (self'\<lparr>dispersion := None\<rparr>))
               | Inr True \<Rightarrow> extraction_of_phasevelo fuel self' periods ginput1 ginput2)))"

text \<open>Lines 135-149: isolation, filtering and the call of the matrix builder.\<close>

definition isolate_filter_construct ::
  "(trace \<Rightarrow> real list list \<Rightarrow> real list \<Rightarrow> bool \<Rightarrow> error + real list list)
     \<Rightarrow> (env \<Rightarrow> error + (real list \<times> real list list) option)
     \<Rightarrow> combination \<Rightarrow> real list \<Rightarrow> real list \<Rightarrow> real list \<Rightarrow> real
     \<Rightarrow> error + (real list \<times> real list list) option" where
  "isolate_filter_construct kaiser_windows_filter body self periods group_arr1 group_arr2 reftime =
     (case movement_windows_construction (tr1 self) periods group_arr1 reftime 3 True of
        Inl e \<Rightarrow> Inl e
      | Inr isotr1 \<Rightarrow>
          (case movement_windows_construction (tr2 self) periods group_arr2 reftime 3 False of
             Inl e \<Rightarrow> Inl e
           | Inr isotr2 \<Rightarrow>
               (case kaiser_windows_filter (tr1 self) isotr1 periods True of
                  Inl e \<Rightarrow> Inl e
                | Inr filttr1 \<Rightarrow>
                    (case kaiser_windows_filter (tr2 self) isotr2 periods False of
                       Inl e \<Rightarrow> Inl e
                     | Inr filttr2 \<Rightarrow>
                         intersta_t_v_construct body
                           [PyTrace (tr1 self), PyTrace (tr2 self),
                            PyMatrix filttr1, PyMatrix filttr2]))))"

text \<open>
  \<open>measure_group_arrival\<close> (FTAN is not part of the module) and \<open>kaiser_windows_filter\<close>
  (scipy's \<open>firwin\<close> and \<open>convolve\<close>) are taken as given; their last argument is
  \<open>debug\<close>. The result is \<open>None\<close> when a loop of the extraction is out of fuel.
\<close>

definition measure_dispersion ::
  "(trace \<Rightarrow> real list \<Rightarrow> real \<Rightarrow> bool \<Rightarrow> error + real \<times> real list)
     \<Rightarrow> (trace \<Rightarrow> real list list \<Rightarrow> real list \<Rightarrow> bool \<Rightarrow> error + real list list)
     \<Rightarrow> (env \<Rightarrow> error + (real list \<times> real list list) option)
     \<Rightarrow> nat \<Rightarrow> point list \<Rightarrow> point list
     \<Rightarrow> combination \<Rightarrow> real list \<Rightarrow> real \<Rightarrow> real \<Rightarrow> (error + combination) option" where
  "measure_dispersion measure_group_arrival kaiser_windows_filter body fuel ginput1 ginput2
       self periods alpha shift_len =
     (let self0 = self\<lparr>dispersion := Some (replicate (length periods) 0)\<rparr>
      in (case measure_group_arrival (tr1 self0) periods alpha True of
            Inl e \<Rightarrow> Some (Inl e)
          | Inr (reftime1, group_arr1) \<Rightarrow>
              (case measure_group_arrival (tr2 self0) periods alpha False of
                 Inl e \<Rightarrow> Some (Inl e)
               | Inr (reftime2, group_arr2) \<Rightarrow>
                   (if reftime1 \<noteq> reftime2 then Some (Inr self0)
                    else if group_arr1 = [] \<or> group_arr2 = [] then Some (Inr self0)
                    else (case isolate_filter_construct kaiser_windows_filter body self0
                                 periods group_arr1 group_arr2 reftime1 of
                            Inl e \<Rightarrow> Some (Inl e)
                          | Inr result \<Rightarrow>
                              after_construct fuel ginput1 ginput2 self0 periods result)))))"

section \<open>Concrete inputs\<close>

text \<open>A trace sampled at 0.1 Hz (\<open>tr.sampling_rate\<close>) and combinations with one or two
  periods; \<open>dispersion\<close> is as line 119 leaves it, all zeros.\<close>

definition example_trace :: trace where
  "example_trace = \<lparr>trace_id = ''BL.NUPB..BHZ'', data = [1, 2, 3], dtype = ''float32'',
     sampling_rate = 1 / 10, stats_sampling_rate = 1, starttime = 0\<rparr>"

definition ridge_combination :: combination where
  "ridge_combination = \<lparr>tr1 = example_trace, tr2 = example_trace, veloscale = [2, 3, 4],
     vmatrix = [[0, 1, 0]], dispersion = Some [0]\<rparr>"

definition looping_combination :: combination where
  "looping_combination = \<lparr>tr1 = example_trace, tr2 = example_trace,
     veloscale = [1 / 2, 1, 3 / 2], vmatrix = [[0, 1, 0]], dispersion = Some [0]\<rparr>"

definition monotone_combination :: combination where
  "monotone_combination = \<lparr>tr1 = example_trace, tr2 = example_trace, veloscale = [2, 3, 4],
     vmatrix = [[1, 2, 3]], dispersion = Some [0]\<rparr>"



text \<open>A trace of five samples, two per second, that starts at time 10.\<close>

definition offset_trace :: trace where
  "offset_trace = \<lparr>trace_id = ''BL.PTGA..BHZ'', data = [5, 7, 9, 11, 13], dtype = ''float32'',
     sampling_rate = 2, stats_sampling_rate = 2, starttime = 10\<rparr>"

text \<open>Two stations, an origin time that formats to fixed strings, a file system
  holding the file of the first station only, and one holding the files of both.\<close>

definition station_one :: station where
  "station_one = \<lparr>network = ''BL'', name = ''NUPB'', channel = ''BHZ''\<rparr>"

definition station_two :: station where
  "station_two = \<lparr>network = ''BL'', name = ''PTGA'', channel = ''BHZ''\<rparr>"

definition example_strftime :: "unit \<Rightarrow> string \<Rightarrow> string" where
  "example_strftime origin fmt =
     (if fmt = ''%Y%m%d%H%M%S'' then ''20140501120130'' else ''2014.121.12.01.30'')"

definition example_read :: "string \<Rightarrow> error + trace list" where
  "example_read path =
     (if path = ''/sac/20140501120130/2014.121.12.01.30.0000.BL.NUPB.*.BHZ.M.SAC''
      then Inr [example_trace] else Inl IOError)"

definition both_files_read :: "string \<Rightarrow> error + trace list" where
  "both_files_read path =
     (if path = ''/sac/20140501120130/2014.121.12.01.30.0000.BL.NUPB.*.BHZ.M.SAC''
      then Inr [example_trace]
      else if path = ''/sac/20140501120130/2014.121.12.01.30.0000.BL.PTGA.*.BHZ.M.SAC''
      then Inr [offset_trace]
      else Inl IOError)"

text \<open>Stages of \<open>measure_dispersion\<close> that succeed: arrivals, an identity filter, and a body
  of the matrix builder that would return a velocity scale and a matrix.\<close>

definition example_group_arrival :: "trace \<Rightarrow> real list \<Rightarrow> real \<Rightarrow> bool \<Rightarrow> error + real \<times> real list" where
  "example_group_arrival tr periods alpha debug = Inr (0, [1])"

definition example_filter :: "trace \<Rightarrow> real list list \<Rightarrow> real list \<Rightarrow> bool \<Rightarrow> error + real list list" where
  "example_filter tr isotr periods debug = Inr isotr"

definition example_body :: "env \<Rightarrow> error + (real list \<times> real list list) option" where
  "example_body bound = Inr (Some ([2, 3, 4], [[0, 1, 0]]))"


section \<open>Evaluation of the tracker on the concrete inputs\<close>

lemma upt_2: "[0..<2] = [0, 1]"
  by (simp add: upt_rec)

lemma upt_3: "[0..<3] = [0, 1, 2]"
  by (simp add: upt_rec)

lemma upt_5: "[0..<5] = [0, 1, 2, 3, 4]"
  by (simp add: upt_rec)

lemmas extremum_defs =
  extremums_of_def argrelextrema_def relextremum_at_def take_clip_def np_greater_def np_less_def

lemma extremums_010: "extremums_of [0, 1, 0] = [1, 1]"
  by (simp add: extremum_defs upt_3)

lemma extremums_123: "extremums_of [1, 2, 3] = []"
  by (simp add: extremum_defs upt_3)


lemma extremums_02120: "extremums_of [0, 2, 1, 2, 0] = [1, 3, 1, 3]"
  by (simp add: extremum_defs upt_5)

lemma minimum_02120: "argrelextrema [0, 2, 1, 2, 0] np_less = [2]"
  by (simp add: extremum_defs upt_5)

lemmas step_defs =
  local_maximum_tracking_def get_point_index_def argmax_eq_def
  extremums_left_of_def extremums_right_of_def half_wave_apart_def write_back_def

lemma ridge_step:
  "local_maximum_tracking ridge_combination (20, 3) [20] =
     Inr (ridge_combination\<lparr>dispersion := Some [1]\<rparr>, None, Some (1, 1))"
  by (simp add: ridge_combination_def example_trace_def step_defs extremums_010 upt_2)

lemma looping_step:
  "local_maximum_tracking looping_combination (20, 1) [20] =
     Inr (looping_combination\<lparr>dispersion := Some [1]\<rparr>, None, Some (1, 1))"
  by (simp add: looping_combination_def example_trace_def step_defs extremums_010 upt_2)

lemma looping_again:
  "local_maximum_tracking (looping_combination\<lparr>dispersion := Some [1]\<rparr>) (1, 1) [20] =
     Inr (looping_combination\<lparr>dispersion := Some [1]\<rparr>, None, Some (1, 1))"
  by (simp add: looping_combination_def example_trace_def step_defs extremums_010 upt_2)

lemma right_walk_loops:
  "right_walk fuel (looping_combination\<lparr>dispersion := Some [1]\<rparr>) [20] (Some (1, 1)) = None"
  by (induction fuel) (simp_all add: looping_again)

lemma monotone_step:
  "local_maximum_tracking monotone_combination (20, 3) [20] = Inl UnboundLocalError"
  by (simp add: monotone_combination_def example_trace_def step_defs extremums_123)



lemma truth_looping: "truth_value (dispersion looping_combination) = Inr False"
  by (simp add: looping_combination_def truth_value_def)

section \<open>The value written to the dispersion curve\<close>

text \<open>
  C1 (the code differs). The claim: the value recorded at an accepted period is the
  velocity (the \<open>veloscale\<close> coordinate) of the straddling extremum of greater amplitude.
  Line 211 binds \<open>phasevelo\<close> to \<open>max(xcorr[left_extremum], xcorr[right_extremum])\<close>,
  an amplitude. On a row with its single maximum of amplitude 1 at velocity 3 km/s, the
  tracker records 1, while the velocity of that extremum is 3.
\<close>

theorem tracking_records_amplitude:
  "local_maximum_tracking ridge_combination (20, 3) [20] =
     Inr (ridge_combination\<lparr>dispersion := Some [1]\<rparr>, None, Some (1, 1)) \<and>
   extremums_of (vmatrix ridge_combination ! 0) = [1, 1] \<and>
   vmatrix ridge_combination ! 0 ! 1 = 1 \<and>
   veloscale ridge_combination ! 1 = 3"
  by (simp add: ridge_step) (simp add: ridge_combination_def extremums_010)

section \<open>The candidate extrema\<close>

text \<open>
  C2 (the code differs). The claim: the candidates examined in a column contain its
  local maxima and its local minima. Lines 192-193 call \<open>argrelextrema\<close> with
  \<open>np.greater\<close> for both sets. The row 0, 2, 1, 2, 0 has its local minimum at index 2
  (what \<open>np.less\<close> finds); the candidates are the maxima 1 and 3, each twice, and index 2
  is not among them.
\<close>

theorem extremums_are_maxima_twice:
  "argrelextrema [0, 2, 1, 2, 0] np_less = [2] \<and>
   extremums_of [0, 2, 1, 2, 0] = [1, 3, 1, 3] \<and>
   \<not> List.member (extremums_of [0, 2, 1, 2, 0]) 2"
  by (simp add: minimum_02120 extremums_02120)

section \<open>Termination of the outward walk\<close>

text \<open>A call of \<open>local_maximum_tracking\<close> that returns always proposes a right point, so
  the extraction never returns: it raises, or it runs for ever.\<close>

lemma first_index_less: "first_index xs v = Some i \<Longrightarrow> i < length xs"
  by (induction xs arbitrary: i) (auto split: if_splits)

lemma argmax_eq_less: "argmax_eq xs v = Inr i \<Longrightarrow> i < length xs"
  by (auto simp: argmax_eq_def split: if_splits option.splits dest: first_index_less)

lemma get_point_index_less:
  "get_point_index pt vscale periods = Inr (iperiod, ivelo) \<Longrightarrow> iperiod < length periods"
  by (auto simp: get_point_index_def split: sum.splits dest: argmax_eq_less)

lemma right_point_always_proposed:
  assumes "local_maximum_tracking self refpoint periods = Inr (self', l, r)"
  shows "r \<noteq> None"
  using assms
  by (auto simp: local_maximum_tracking_def write_back_def Let_def
      split: sum.splits prod.splits if_splits option.splits dest: get_point_index_less)

lemma right_walk_never_returns:
  "right_walk fuel self periods (Some rightpoint) \<noteq> Some (Inr self')"
proof (induction fuel arbitrary: self rightpoint)
  case 0
  show ?case by simp
next
  case (Suc fuel)
  show ?case
  proof (cases "local_maximum_tracking self rightpoint periods")
    case (Inl e)
    then show ?thesis by simp
  next
    case (Inr res)
    obtain s l r where res: "res = (s, l, r)" by (cases res)
    with Inr right_point_always_proposed have "r \<noteq> None" by blast
    then obtain p where "r = Some p" by auto
    with Inr res Suc.IH show ?thesis by simp
  qed
qed

lemma extraction_never_returns:
  "extraction_of_phasevelo fuel self periods ginput1 ginput2 \<noteq> Some (Inr self')"
proof
  assume ret: "extraction_of_phasevelo fuel self periods ginput1 ginput2 = Some (Inr self')"
  then obtain refpoint self1 where "plot_vmatrix self periods ginput1 = Inr (Some refpoint, self1)"
    by (auto simp: extraction_of_phasevelo_def split: sum.splits prod.splits option.splits)
  with ret obtain self2 l r
    where t: "local_maximum_tracking self1 refpoint periods = Inr (self2, l, r)"
      and w: "walks fuel self2 periods l r ginput2 = Some (Inr self')"
    by (auto simp: extraction_of_phasevelo_def split: sum.splits prod.splits)
  from right_point_always_proposed [OF t] obtain p where "r = Some p" by auto
  with w right_walk_never_returns [of fuel self2 periods p] show False
    by (auto simp: walks_def split: option.splits sum.splits)
qed

text \<open>
  C5 (the code differs). The claim: the two loops of \<open>extraction_of_phasevelo\<close> reach a
  state where both directions are exhausted. The right point is \<open>()\<close> only when
  \<open>iperiod = len(periods)\<close>, which no index is, so the first loop ends only by an
  exception. With one period of 20 s, the velocity grid 0.5, 1, 1.5 and the seed
  (20, 1), every call proposes the point (1, 1) again, which \<open>get_point_index\<close> maps back
  to the same indices: the loop is still running after any number of iterations.
\<close>

theorem extraction_does_not_terminate:
  "\<forall>fuel. extraction_of_phasevelo fuel looping_combination [20] [(20, 1)] [] = None"
  by (simp add: extraction_of_phasevelo_def plot_vmatrix_def truth_looping looping_step
      walks_def right_walk_loops)

section \<open>A column without a straddling pair\<close>

text \<open>
  C6 (the code differs). The claim: when no straddling pair exists (\<open>shift_length = 0\<close>),
  \<open>local_maximum_tracking\<close> leaves the period unresolved and returns normally. On the
  increasing row 1, 2, 3 there is no extremum, the loop of line 202 does not run, and
  line 216 reads the unbound \<open>phasevelo\<close>.
\<close>

theorem tracking_without_extrema_raises:
  "local_maximum_tracking monotone_combination (20, 3) [20] = Inl UnboundLocalError \<and>
   extremums_of (vmatrix monotone_combination ! 0) = []"
  by (simp add: monotone_step) (simp add: monotone_combination_def extremums_123)

section \<open>A seed below the period threshold\<close>




section \<open>The proposed seed points\<close>

text \<open>
  C9 (the code differs). The claim: index+1 is proposed only when the current index is
  not the last. Line 222 compares with \<open>len(periods)\<close>, not \<open>len(periods) - 1\<close>: with a
  single period the current index 0 is the last, and the right point proposed has the
  period index 1, the length of the period set.
\<close>

theorem tracking_proposes_index_out_of_bounds:
  "local_maximum_tracking ridge_combination (20, 3) [20] =
     Inr (ridge_combination\<lparr>dispersion := Some [1]\<rparr>, None,
          Some (real (length [20 :: real]), 1))"
  by (simp add: ridge_step)

section \<open>The files read by get_merged_traces\<close>

lemma station_one_path:
  "os_path_join ''/sac''
     [example_strftime () ''%Y%m%d%H%M%S'',
      filename_of (example_strftime () ''%Y.%j.%H.%M.%S'') station_one] =
     ''/sac/20140501120130/2014.121.12.01.30.0000.BL.NUPB.*.BHZ.M.SAC''"
  by (simp add: example_strftime_def filename_of_def station_one_def os_path_join_def join2_def)

lemma station_two_path:
  "os_path_join ''/sac''
     [example_strftime () ''%Y%m%d%H%M%S'',
      filename_of (example_strftime () ''%Y.%j.%H.%M.%S'') station_two] =
     ''/sac/20140501120130/2014.121.12.01.30.0000.BL.PTGA.*.BHZ.M.SAC''"
  by (simp add: example_strftime_def filename_of_def station_two_def os_path_join_def join2_def)

text \<open>
  C3. Both calls of \<open>obspy.read\<close> get the path built from station 1 (line 88 joins
  \<open>filename1\<close> again; \<open>filename2\<close> is never used). The result is what the file at that
  path gives: the stream read there, merged, checked against itself. It is the same on
  two file systems that agree at that path, it does not depend on station 2, and when
  two traces are attached both are the first merged trace of the stream read at the path
  of station 1.
\<close>

theorem merged_traces_read_same_file:
  "fst (filepaths strftime sacdir origin sta1 sta2) =
     os_path_join sacdir
       [strftime origin ''%Y%m%d%H%M%S'',
        filename_of (strftime origin ''%Y.%j.%H.%M.%S'') sta1] \<and>
   snd (filepaths strftime sacdir origin sta1 sta2) =
     fst (filepaths strftime sacdir origin sta1 sta2) \<and>
   get_merged_traces read merge strftime sacdir origin sta1 sta2 =
     (case read (os_path_join sacdir
                   [strftime origin ''%Y%m%d%H%M%S'',
                    filename_of (strftime origin ''%Y.%j.%H.%M.%S'') sta1]) of
        Inl e \<Rightarrow> Inl e
      | Inr st \<Rightarrow> (case merged_first merge st of
                     Inl e \<Rightarrow> Inl e
                   | Inr t \<Rightarrow> check_traces t t)) \<and>
   (read (os_path_join sacdir
            [strftime origin ''%Y%m%d%H%M%S'',
             filename_of (strftime origin ''%Y.%j.%H.%M.%S'') sta1]) =
    read' (os_path_join sacdir
            [strftime origin ''%Y%m%d%H%M%S'',
             filename_of (strftime origin ''%Y.%j.%H.%M.%S'') sta1])
    \<longrightarrow> get_merged_traces read merge strftime sacdir origin sta1 sta2 =
        get_merged_traces read' merge strftime sacdir origin sta1 sta2) \<and>
   get_merged_traces read merge strftime sacdir origin sta1 sta2 =
     get_merged_traces read merge strftime sacdir origin sta1 sta2' \<and>
   (get_merged_traces read merge strftime sacdir origin sta1 sta2 = Inr (t1, t2)
      \<longrightarrow> t1 = t2 \<and>
          (\<exists>st. read (os_path_join sacdir
                        [strftime origin ''%Y%m%d%H%M%S'',
                         filename_of (strftime origin ''%Y.%j.%H.%M.%S'') sta1]) = Inr st \<and>
                merged_first merge st = Inr t1))"
  by (auto simp: get_merged_traces_def filepaths_def Let_def check_traces_def
      split: sum.splits if_splits)

theorem merged_traces_read_same_file_witness:
  "both_files_read ''/sac/20140501120130/2014.121.12.01.30.0000.BL.NUPB.*.BHZ.M.SAC'' =
     example_read ''/sac/20140501120130/2014.121.12.01.30.0000.BL.NUPB.*.BHZ.M.SAC'' \<and>
   both_files_read ''/sac/20140501120130/2014.121.12.01.30.0000.BL.PTGA.*.BHZ.M.SAC'' =
     Inr [offset_trace] \<and>
   get_merged_traces both_files_read Inr example_strftime ''/sac'' () station_one station_two =
     get_merged_traces example_read Inr example_strftime ''/sac'' () station_one station_two \<and>
   get_merged_traces both_files_read Inr example_strftime ''/sac'' () station_one station_two =
     Inr (example_trace, example_trace) \<and>
   get_merged_traces both_files_read Inr example_strftime ''/sac'' () station_two station_one =
     Inr (offset_trace, offset_trace)"
proof -
  have r: "both_files_read ''/sac/20140501120130/2014.121.12.01.30.0000.BL.NUPB.*.BHZ.M.SAC'' =
      Inr [example_trace]"
    "example_read ''/sac/20140501120130/2014.121.12.01.30.0000.BL.NUPB.*.BHZ.M.SAC'' =
      Inr [example_trace]"
    "both_files_read ''/sac/20140501120130/2014.121.12.01.30.0000.BL.PTGA.*.BHZ.M.SAC'' =
      Inr [offset_trace]"
    by (simp_all add: both_files_read_def example_read_def)
  have c: "check_traces example_trace example_trace = Inr (example_trace, example_trace)"
    "check_traces offset_trace offset_trace = Inr (offset_trace, offset_trace)"
    by (simp_all add: check_traces_def example_trace_def offset_trace_def)
  note m = merged_traces_read_same_file [of example_strftime "''/sac''" "()" station_one
      station_two both_files_read Inr example_read station_two example_trace example_trace,
      unfolded station_one_path r]
  note n = merged_traces_read_same_file [of example_strftime "''/sac''" "()" station_two
      station_one both_files_read Inr example_read station_one offset_trace offset_trace,
      unfolded station_two_path r]
  have 1: "get_merged_traces both_files_read Inr example_strftime ''/sac'' () station_one
        station_two = Inr (example_trace, example_trace)"
    using m by (simp add: merged_first_def c)
  have 2: "get_merged_traces both_files_read Inr example_strftime ''/sac'' () station_one
        station_two =
      get_merged_traces example_read Inr example_strftime ''/sac'' () station_one station_two"
    using m by blast
  have 3: "get_merged_traces both_files_read Inr example_strftime ''/sac'' () station_two
        station_one = Inr (offset_trace, offset_trace)"
    using n by (simp add: merged_first_def c)
  show ?thesis using r 1 2 3 by simp
qed

section \<open>The call of the matrix builder\<close>

lemma four_arguments_TypeError:
  "intersta_t_v_construct body [a, b, c, d] = Inl TypeError"
  by (simp add: intersta_t_v_construct_def)

lemma isolate_filter_construct_raises:
  "\<exists>e. isolate_filter_construct kaiser_windows_filter body self periods g1 g2 reftime = Inl e"
  by (auto simp: isolate_filter_construct_def four_arguments_TypeError split: sum.splits)

text \<open>
  C4 (the code differs). The claim: once the arrivals are obtained, the matrix builder is
  called with all the inputs it requires and the pipeline proceeds to tracking. Line 149
  passes four positional arguments to a function whose fifth parameter \<open>periods\<close> has no
  default: the call raises \<open>TypeError\<close> whatever the body is, and \<open>measure_dispersion\<close>
  ends with an exception.
\<close>

theorem measure_dispersion_never_builds_matrix:
  assumes "measure_group_arrival (tr1 self) periods alpha True = Inr (reftime, group_arr1)"
      and "measure_group_arrival (tr2 self) periods alpha False = Inr (reftime, group_arr2)"
      and "group_arr1 \<noteq> []" and "group_arr2 \<noteq> []"
  shows "(\<exists>e. measure_dispersion measure_group_arrival kaiser_windows_filter body fuel
                ginput1 ginput2 self periods alpha shift_len = Some (Inl e)) \<and>
         intersta_t_v_construct body
           [PyTrace (tr1 self), PyTrace (tr2 self), PyMatrix filttr1, PyMatrix filttr2] =
             Inl TypeError"
proof -
  obtain e where e: "isolate_filter_construct kaiser_windows_filter body
      (self\<lparr>dispersion := Some (replicate (length periods) 0)\<rparr>) periods
      group_arr1 group_arr2 reftime = Inl e"
    using isolate_filter_construct_raises by blast
  have "measure_dispersion measure_group_arrival kaiser_windows_filter body fuel
      ginput1 ginput2 self periods alpha shift_len = Some (Inl e)"
    using assms e by (simp add: measure_dispersion_def Let_def)
  then show ?thesis by (simp add: four_arguments_TypeError)
qed

lemma example_isotr:
  "movement_windows_construction example_trace [80] [1] 0 3 debug = Inr [[1, 2, 3]]"
proof -
  have t: "timescale_of example_trace = [0, 1, 2]"
    by (simp add: timescale_of_def example_trace_def upt_3)
  show ?thesis
    by (simp add: movement_windows_construction_def t)
       (simp add: example_trace_def window_weight_def plot_isolation_def Let_def)
qed

theorem measure_dispersion_never_builds_matrix_witness:
  "measure_dispersion example_group_arrival example_filter example_body 5 [(20, 3)] []
     ridge_combination [80] 1 500 = Some (Inl TypeError)"
proof -
  have a: "example_group_arrival (tr1 ridge_combination) [80] 1 True = Inr (0, [1])"
    and b: "example_group_arrival (tr2 ridge_combination) [80] 1 False = Inr (0, [1])"
    by (simp_all add: example_group_arrival_def)
  have n: "[1 :: real] \<noteq> []" by simp
  have i: "isolate_filter_construct example_filter example_body
      (ridge_combination\<lparr>dispersion := Some (replicate (length [80 :: real]) 0)\<rparr>) [80] [1] [1] 0 =
      Inl TypeError"
    by (simp add: isolate_filter_construct_def ridge_combination_def example_isotr
        example_filter_def four_arguments_TypeError)
  have m: "measure_dispersion example_group_arrival example_filter example_body 5 [(20, 3)] []
     ridge_combination [80] 1 500 = Some (Inl TypeError)"
    using a b i by (simp add: measure_dispersion_def Let_def)
  from measure_dispersion_never_builds_matrix [where measure_group_arrival = example_group_arrival
      and kaiser_windows_filter = example_filter and body = example_body and fuel = 5
      and ?ginput1.0 = "[(20, 3)]" and ?ginput2.0 = "[]" and shift_len = 500, OF a b n n] m
  show ?thesis by simp
qed

section \<open>Unresolved entries of the curve\<close>




lemma right_walk_raises_after_calls:
  "right_walk fuel self periods (Some p) = Some (Inl e) \<Longrightarrow>
     \<exists>points q self' resolved. tracking_calls self periods points = Inr (self', resolved) \<and>
        local_maximum_tracking self' q periods = Inl e"
proof (induction fuel arbitrary: self p)
  case 0
  then show ?case by simp
next
  case (Suc fuel)
  show ?case
  proof (cases "local_maximum_tracking self p periods")
    case (Inl e')
    with Suc.prems have "e' = e" by simp
    with Inl have "tracking_calls self periods [] = Inr (self, []) \<and>
        local_maximum_tracking self p periods = Inl e" by simp
    then show ?thesis by blast
  next
    case (Inr res)
    obtain s l r where res: "res = (s, l, r)" by (cases res) auto
    from right_point_always_proposed [OF Inr [unfolded res]] obtain p' where r: "r = Some p'"
      by auto
    from Suc.prems Inr res r have w: "right_walk fuel s periods (Some p') = Some (Inl e)"
      by simp
    from Suc.IH [OF w] obtain points q self' resolved
      where c: "tracking_calls s periods points = Inr (self', resolved)"
        and q: "local_maximum_tracking self' q periods = Inl e"
      by blast
    from Inr res obtain i iv where g: "get_point_index p (veloscale self) periods = Inr (i, iv)"
      by (auto simp: local_maximum_tracking_def split: sum.splits)
    have "tracking_calls self periods (p # points) = Inr (self', i # resolved)"
      using g Inr res c by simp
    with q show ?thesis by blast
  qed
qed








section \<open>The isolation window\<close>

lemma window_weight_unfold:
  "window_weight n T0 arrival time =
     (if time < arrival + n * T0 + T0 / 2 \<and> time > arrival + n * T0
      then cos (pi * (\<bar>time - arrival\<bar> - n * T0) / T0)
      else if time < arrival - n * T0 \<and> time > arrival - n * T0 - T0 / 2
      then cos (pi * (\<bar>time - arrival\<bar> - n * T0) / T0)
      else if time \<le> arrival + n * T0 \<and> time \<ge> arrival - n * T0 then 1 else 0)"
  by (simp only: window_weight_def Let_def)

lemma window_weight_outside:
  assumes "0 < T0" and "0 \<le> n"
      and "time < arrival - n * T0 - T0 / 2 \<or> time > arrival + n * T0 + T0 / 2"
  shows "window_weight n T0 arrival time = 0"
proof -
  define h where "h = n * T0"
  have h: "0 \<le> h" using assms by (simp add: h_def)
  have out: "time < arrival - h - T0 / 2 \<or> time > arrival + h + T0 / 2"
    using assms(3) by (simp add: h_def)
  have 1: "\<not> (time < arrival + h + T0 / 2 \<and> time > arrival + h)"
    using h out assms(1) by linarith
  have 2: "\<not> (time < arrival - h \<and> time > arrival - h - T0 / 2)"
    using h out assms(1) by linarith
  have 3: "\<not> (time \<le> arrival + h \<and> time \<ge> arrival - h)"
    using h out assms(1) by linarith
  show ?thesis
    unfolding window_weight_unfold using 1 2 3 by (simp only: h_def if_False simp_thms)
qed

lemma window_weight_arrival:
  assumes "0 < T0" and "0 \<le> n"
  shows "window_weight n T0 arrival arrival = 1"
proof -
  define h where "h = n * T0"
  have h: "0 \<le> h" using assms by (simp add: h_def)
  have 1: "\<not> (arrival < arrival + h + T0 / 2 \<and> arrival > arrival + h)"
    using h by linarith
  have 2: "\<not> (arrival < arrival - h \<and> arrival > arrival - h - T0 / 2)"
    using h by linarith
  have 3: "arrival \<le> arrival + h \<and> arrival \<ge> arrival - h"
    using h by linarith
  show ?thesis
    unfolding window_weight_unfold using 1 2 3 by (simp only: h_def if_False if_True simp_thms)
qed

lemma length_timescale_of: "length (timescale_of tr) = length (data tr)"
  by (simp add: timescale_of_def)

lemma isotr_entry:
  assumes "movement_windows_construction tr periods group_arr reftime n debug = Inr isotr"
      and "iperiod < length periods" and "index < length (data tr)"
  shows "isotr ! iperiod ! index =
           data tr ! index *
             window_weight n (periods ! iperiod) (group_arr ! iperiod) (timescale_of tr ! index)"
proof -
  have len: "length periods \<le> length group_arr"
    using assms(1) by (auto simp: movement_windows_construction_def split: if_splits)
  have iso: "isotr = map (\<lambda>wrow. map2 (*) (data tr) wrow)
      (map (\<lambda>(T0, arrival). map (window_weight n T0 arrival) (timescale_of tr))
         (zip periods group_arr))"
    using assms(1)
    by (auto simp: movement_windows_construction_def Let_def split: if_splits sum.splits)
  show ?thesis
    using assms(2,3) len by (simp add: iso length_timescale_of)
qed

lemma timescale_of_nth:
  "index < length (data tr) \<Longrightarrow>
     timescale_of tr ! index = starttime tr + real index / stats_sampling_rate tr"
  by (simp add: timescale_of_def)

lemma movement_windows_construction_returns:
  assumes "stats_sampling_rate tr \<noteq> 0 \<or> data tr = []"
      and "length periods \<le> length group_arr"
      and "debug \<longrightarrow> data tr \<noteq> [] \<and> List.member periods 80"
  shows "movement_windows_construction tr periods group_arr reftime n debug =
           Inr (map (\<lambda>wrow. map2 (*) (data tr) wrow)
             (map (\<lambda>(T0, arrival). map (window_weight n T0 arrival) (timescale_of tr))
                (zip periods group_arr)))"
  using assms
  by (auto simp: movement_windows_construction_def Let_def plot_isolation_def timescale_of_def)

lemma offset_timescale: "timescale_of offset_trace = [10, 21 / 2, 11, 23 / 2, 12]"
  by (simp add: timescale_of_def offset_trace_def upt_5)

lemma offset_isotr:
  "movement_windows_construction offset_trace [1 / 2] [11] 0 1 False = Inr [[0, 7, 9, 11, 0]]"
  by (simp add: movement_windows_construction_def offset_timescale)
     (simp add: offset_trace_def window_weight_def)

lemma offset_isotr_debug:
  "movement_windows_construction offset_trace [80] [11] 0 1 True = Inr [[5, 7, 9, 11, 13]]"
  by (simp add: movement_windows_construction_def offset_timescale)
     (simp add: offset_trace_def window_weight_def plot_isolation_def)

text \<open>
  C10. Given a sampling rate that is not zero, an arrival for every period and, when
  the debug plot is asked for, the period 80 among the periods,
  \<open>movement_windows_construction\<close> returns a matrix with one row per period and one entry
  per sample. For a positive period and a half-width that is not negative, the sample
  of index i has the time starttime + i / sampling_rate; when that time lies outside
  [arrival - n T - T/2, arrival + n T + T/2] its weight is 0 and its isolated value 0,
  and when it is the arrival time its weight is 1 and the isolated value is the raw one.
\<close>

theorem isolation_window_zero_outside_one_at_arrival:
  assumes "stats_sampling_rate tr \<noteq> 0" and "length periods \<le> length group_arr"
      and "debug \<longrightarrow> List.member periods 80"
      and "iperiod < length periods" and "index < length (data tr)"
      and "0 < periods ! iperiod" and "0 \<le> halfwidth"
  shows "\<exists>isotr.
           movement_windows_construction tr periods group_arr reftime halfwidth debug =
             Inr isotr \<and>
           length isotr = length periods \<and> length (isotr ! iperiod) = length (data tr) \<and>
           (starttime tr + real index / stats_sampling_rate tr
              < group_arr ! iperiod - halfwidth * (periods ! iperiod) - periods ! iperiod / 2 \<or>
            starttime tr + real index / stats_sampling_rate tr
              > group_arr ! iperiod + halfwidth * (periods ! iperiod) + periods ! iperiod / 2
            \<longrightarrow> window_weight halfwidth (periods ! iperiod) (group_arr ! iperiod)
                   (starttime tr + real index / stats_sampling_rate tr) = 0 \<and>
                 isotr ! iperiod ! index = 0) \<and>
           (starttime tr + real index / stats_sampling_rate tr = group_arr ! iperiod
            \<longrightarrow> window_weight halfwidth (periods ! iperiod) (group_arr ! iperiod)
                   (starttime tr + real index / stats_sampling_rate tr) = 1 \<and>
                 isotr ! iperiod ! index = data tr ! index)"
proof -
  define iso where "iso = map (\<lambda>wrow. map2 (*) (data tr) wrow)
      (map (\<lambda>(T0, arrival). map (window_weight halfwidth T0 arrival) (timescale_of tr))
         (zip periods group_arr))"
  have ne: "data tr \<noteq> []" using assms(5) by auto
  have r: "movement_windows_construction tr periods group_arr reftime halfwidth debug = Inr iso"
    unfolding iso_def
    using movement_windows_construction_returns [of tr periods group_arr debug reftime halfwidth]
      assms(1,2,3) ne by simp
  have e: "iso ! iperiod ! index =
      data tr ! index * window_weight halfwidth (periods ! iperiod) (group_arr ! iperiod)
        (starttime tr + real index / stats_sampling_rate tr)"
    using isotr_entry [OF r assms(4,5)] timescale_of_nth [OF assms(5)] by simp
  have l: "length (iso ! iperiod) = length (data tr)"
    using assms(2,4) by (simp add: iso_def length_timescale_of)
  have n: "length iso = length periods"
    using assms(2) by (simp add: iso_def)
  show ?thesis
    using r e l n window_weight_outside [OF assms(6,7)] window_weight_arrival [OF assms(6,7)]
    by (intro exI [of _ iso]) auto
qed

theorem isolation_window_zero_outside_one_at_arrival_witness:
  "stats_sampling_rate offset_trace \<noteq> 0 \<and>
   starttime offset_trace + real 0 / stats_sampling_rate offset_trace
     < 11 - 1 * (1 / 2) - (1 / 2) / 2 \<and>
   starttime offset_trace + real 2 / stats_sampling_rate offset_trace = 11 \<and>
   movement_windows_construction offset_trace [1 / 2] [11] 0 1 False =
     Inr [[0, 7, 9, 11, 0]] \<and>
   window_weight 1 (1 / 2) 11
     (starttime offset_trace + real 0 / stats_sampling_rate offset_trace) = 0 \<and>
   window_weight 1 (1 / 2) 11
     (starttime offset_trace + real 2 / stats_sampling_rate offset_trace) = 1 \<and>
   [[0, 7, 9, 11, 0 :: real]] ! 0 ! 2 = data offset_trace ! 2 \<and>
   List.member [80 :: real] 80 \<and>
   movement_windows_construction offset_trace [80] [11] 0 1 True =
     Inr [[5, 7, 9, 11, 13]] \<and>
   window_weight 1 80 11
     (starttime offset_trace + real 2 / stats_sampling_rate offset_trace) = 1"
proof -
  have s: "stats_sampling_rate offset_trace \<noteq> 0"
    and g: "length [1 / 2 :: real] \<le> length [11 :: real]"
    and d: "False \<longrightarrow> List.member [1 / 2 :: real] 80"
    and a: "0 < length [1 / 2 :: real]" and b: "(0::nat) < length (data offset_trace)"
    and c: "2 < length (data offset_trace)"
    and p: "0 < [1 / 2 :: real] ! 0" and h: "(0 :: real) \<le> 1"
    and g': "length [80 :: real] \<le> length [11 :: real]"
    and d': "True \<longrightarrow> List.member [80 :: real] 80"
    and a': "0 < length [80 :: real]" and p': "0 < [80 :: real] ! 0"
    by (simp_all add: offset_trace_def)
  from isolation_window_zero_outside_one_at_arrival [OF s g d a b p h, of 0]
    isolation_window_zero_outside_one_at_arrival [OF s g d a c p h, of 0]
    isolation_window_zero_outside_one_at_arrival [OF s g' d' a' c p' h, of 0]
  show ?thesis unfolding offset_isotr offset_isotr_debug by (simp add: offset_trace_def)
qed

end
